theory Spec2Isabelle
  imports Complex_Main
begin

section \<open>crystals/atom.py: elements, atoms and electronic structures\<close>

text \<open>
  A shallow embedding of \<^verbatim>\<open>src/crystals/atom.py\<close>. Python exceptions are values of
  the type \<open>error\<close>, and a function that may raise returns \<open>error + 'a\<close>. The
  coordinates, displacements and occupancies are finite Python floats, modelled by the
  reals: rounding error is not modelled, so nothing is stated here about a numerical
  tolerance of a computed result. A magnetic moment is a float that may be NaN. Python
  ints are modelled by \<open>int\<close>, and a Python \<^verbatim>\<open>str\<close> by a \<open>string\<close> holding its UTF-8
  bytes (every string the module compares is ASCII; only the superscript digits of the
  rendering are not).
\<close>

subsection \<open>Subshell\<close>

datatype Subshell =
    one_s | two_s | two_p | three_s | three_p | four_s | three_d | four_p | five_s
  | four_d | five_p | six_s | four_f | five_d | six_p | seven_s | five_f | six_d | seven_p

text \<open>The members in the order of their declaration, which is the order of iteration.\<close>

definition Subshells :: "Subshell list" where
  "Subshells =
     [one_s, two_s, two_p, three_s, three_p, four_s, three_d, four_p, five_s,
      four_d, five_p, six_s, four_f, five_d, six_p, seven_s, five_f, six_d, seven_p]"

fun Subshell_value :: "Subshell \<Rightarrow> string" where
  "Subshell_value one_s = ''1s''"
| "Subshell_value two_s = ''2s''"
| "Subshell_value two_p = ''2p''"
| "Subshell_value three_s = ''3s''"
| "Subshell_value three_p = ''3p''"
| "Subshell_value four_s = ''4s''"
| "Subshell_value three_d = ''3d''"
| "Subshell_value four_p = ''4p''"
| "Subshell_value five_s = ''5s''"
| "Subshell_value four_d = ''4d''"
| "Subshell_value five_p = ''5p''"
| "Subshell_value six_s = ''6s''"
| "Subshell_value four_f = ''4f''"
| "Subshell_value five_d = ''5d''"
| "Subshell_value six_p = ''6p''"
| "Subshell_value seven_s = ''7s''"
| "Subshell_value five_f = ''5f''"
| "Subshell_value six_d = ''6d''"
| "Subshell_value seven_p = ''7p''"

subsection \<open>Exceptions\<close>

datatype error =
    InvalidElement string
  | InvalidSubshell
  | InvalidPopulation int Subshell
  | KeyError
  | DistanceUndefined
  | LinAlgError

text \<open>
  \<^item> \<open>InvalidElement s\<close>: \<^verbatim>\<open>ValueError(f"Element {element} is not valid.")\<close>;
  \<^item> \<open>InvalidSubshell\<close>: the \<^verbatim>\<open>ValueError\<close> that \<^verbatim>\<open>Subshell(key)\<close> raises for a value
    that is no member's;
  \<^item> \<open>InvalidPopulation value shell\<close>:
    \<^verbatim>\<open>ValueError(f"There cannot be {value} electrons in subshell {str(shell)}")\<close>;
  \<^item> \<open>KeyError\<close>: a key missing from a dictionary;
  \<^item> \<open>DistanceUndefined\<close>:
    \<^verbatim>\<open>RuntimeError("Distance is undefined if atoms are sitting on different lattices.")\<close>;
  \<^item> \<open>LinAlgError\<close>: numpy's error for the inverse of a singular matrix.
\<close>

subsection \<open>Magnetic moments\<close>

text \<open>
  A magnetic moment is a Python float that may be NaN: a caller may pass
  \<^verbatim>\<open>float("nan")\<close>, and the table of ground-state moments may hold it for an element
  without a known moment. NaN is truthy, and \<^verbatim>\<open>==\<close> is false whenever one side is NaN,
  also when both are. \<open>truthy\<close> is the truth value of a float, \<open>float_eq\<close> is \<^verbatim>\<open>==\<close>.
\<close>

datatype pyfloat = Float real | NaN

definition truthy :: "pyfloat \<Rightarrow> bool" where
  "truthy m = (case m of Float x \<Rightarrow> x \<noteq> 0 | NaN \<Rightarrow> True)"

definition float_eq :: "pyfloat \<Rightarrow> pyfloat \<Rightarrow> bool" where
  "float_eq a b =
     (case a of
        NaN \<Rightarrow> False
      | Float x \<Rightarrow> (case b of NaN \<Rightarrow> False | Float y \<Rightarrow> x = y))"

subsection \<open>The periodic-table data (\<^verbatim>\<open>atom_data\<close>)\<close>

text \<open>
  The module \<^verbatim>\<open>atom_data\<close> is imported by \<^verbatim>\<open>atom.py\<close> but is not among the source
  files. Its tables are a parameter of every function that reads them.
\<close>

record atom_data =
  chemical_symbols :: "string list"
  NUM_TO_ELEM :: "int \<rightharpoonup> string"
  ELEM_TO_NUM :: "string \<rightharpoonup> int"
  ELEM_TO_MAGMOM :: "string \<rightharpoonup> pyfloat"

subsection \<open>\<^verbatim>\<open>str.title\<close> on ASCII strings\<close>

text \<open>
  The functions of this subsection are \<^verbatim>\<open>str.title\<close> on strings of ASCII characters,
  where the cased characters are the letters A to Z and a to z. On the bytes of a
  character outside ASCII they are not what Python computes (Python titlecases Unicode),
  so the properties of \<^verbatim>\<open>Element\<close> below are stated for ASCII strings.
\<close>

definition is_upper :: "char \<Rightarrow> bool" where
  "is_upper c = (65 \<le> (of_char c :: nat) \<and> (of_char c :: nat) \<le> 90)"

definition is_lower :: "char \<Rightarrow> bool" where
  "is_lower c = (97 \<le> (of_char c :: nat) \<and> (of_char c :: nat) \<le> 122)"

definition is_cased :: "char \<Rightarrow> bool" where
  "is_cased c = (is_upper c \<or> is_lower c)"

definition to_lower :: "char \<Rightarrow> char" where
  "to_lower c = (if is_upper c then char_of ((of_char c :: nat) + 32) else c)"

definition to_upper :: "char \<Rightarrow> char" where
  "to_upper c = (if is_lower c then char_of ((of_char c :: nat) - 32) else c)"

text \<open>
  CPython's \<^verbatim>\<open>str.title\<close>: a character that follows a cased character is lowercased,
  any other character is titlecased (uppercased, for ASCII).
\<close>

fun title_from :: "bool \<Rightarrow> string \<Rightarrow> string" where
  "title_from previous_is_cased [] = []"
| "title_from previous_is_cased (c # cs) =
     (if previous_is_cased then to_lower c else to_upper c) # title_from (is_cased c) cs"

definition title :: "string \<Rightarrow> string" where
  "title s = title_from False s"

subsection \<open>Element\<close>

record Element =
  element :: string

text \<open>The argument of \<^verbatim>\<open>Element(element)\<close>: an \<^verbatim>\<open>int\<close> or a \<^verbatim>\<open>str\<close>.\<close>

datatype element_arg = Num int | Sym string

definition valid_symbols :: "atom_data \<Rightarrow> string set" where
  "valid_symbols d = set (chemical_symbols d)"

definition Element_init :: "atom_data \<Rightarrow> element_arg \<Rightarrow> error + Element" where
  "Element_init d arg =
     (case (case arg of
              Num n \<Rightarrow> (case NUM_TO_ELEM d n of None \<Rightarrow> Inl KeyError | Some s \<Rightarrow> Inr s)
            | Sym s \<Rightarrow> Inr s) of
        Inl e \<Rightarrow> Inl e
      | Inr s \<Rightarrow>
          (let el = title s in
           if el \<notin> valid_symbols d then Inl (InvalidElement el)
           else Inr \<lparr>element = el\<rparr>))"

definition Element_eq :: "'a Element_scheme \<Rightarrow> 'b Element_scheme \<Rightarrow> bool" where
  "Element_eq self other = (element self = element other)"

definition atomic_number :: "atom_data \<Rightarrow> 'a Element_scheme \<Rightarrow> error + int" where
  "atomic_number d self =
     (case ELEM_TO_NUM d (element self) of None \<Rightarrow> Inl KeyError | Some n \<Rightarrow> Inr n)"

definition magnetic_moment_ground :: "atom_data \<Rightarrow> string \<Rightarrow> error + pyfloat" where
  "magnetic_moment_ground d el =
     (case ELEM_TO_MAGMOM d el of None \<Rightarrow> Inl KeyError | Some m \<Rightarrow> Inr m)"

subsection \<open>Subshell keys and maxima\<close>

text \<open>A key as callers give it: a member of the enumeration or a label.\<close>

datatype key = Member Subshell | Label string

text \<open>\<^verbatim>\<open>Subshell(key)\<close>: a member is returned as it is, a label is looked up by value.\<close>

definition Subshell_of :: "key \<Rightarrow> error + Subshell" where
  "Subshell_of k =
     (case k of
        Member s \<Rightarrow> Inr s
      | Label l \<Rightarrow>
          (case find (\<lambda>m. Subshell_value m = l) Subshells of
             None \<Rightarrow> Inl InvalidSubshell
           | Some s \<Rightarrow> Inr s))"

definition maxima :: "char \<rightharpoonup> int" where
  "maxima = map_of [(CHR ''s'', 2), (CHR ''p'', 6), (CHR ''d'', 10), (CHR ''f'', 14)]"

definition maximum_electrons :: "key \<Rightarrow> error + int" where
  "maximum_electrons shell =
     (case Subshell_of shell of
        Inl e \<Rightarrow> Inl e
      | Inr s \<Rightarrow>
          (case maxima (last (Subshell_value s)) of
             None \<Rightarrow> Inl KeyError
           | Some m \<Rightarrow> Inr m))"

subsection \<open>ElectronicStructure\<close>

text \<open>
  An \<^verbatim>\<open>OrderedDict\<close> from \<^verbatim>\<open>Subshell\<close> to the number of electrons: the list of its
  items in insertion order.
\<close>

type_synonym ElectronicStructure = "(Subshell \<times> int) list"

text \<open>
  \<^verbatim>\<open>__setitem__\<close> returns the dictionary as the call leaves it. The override checks the
  value against the maximum and returns; it never calls the inherited \<^verbatim>\<open>__setitem__\<close>,
  so the items are the ones it was given.
\<close>

definition setitem :: "ElectronicStructure \<Rightarrow> key \<Rightarrow> int \<Rightarrow> error + ElectronicStructure" where
  "setitem self k v =
     (case Subshell_of k of
        Inl e \<Rightarrow> Inl e
      | Inr shell \<Rightarrow>
          (case maximum_electrons (Member shell) of
             Inl e \<Rightarrow> Inl e
           | Inr maximum_allowed_electrons \<Rightarrow>
               if v > maximum_allowed_electrons
               then Inl (InvalidPopulation v shell)
               else Inr self))"

text \<open>\<^verbatim>\<open>__getitem__\<close> is inherited: the value stored under the key, or a \<^verbatim>\<open>KeyError\<close>.\<close>

definition getitem :: "ElectronicStructure \<Rightarrow> Subshell \<Rightarrow> error + int" where
  "getitem self shell = (case map_of self shell of None \<Rightarrow> Inl KeyError | Some v \<Rightarrow> Inr v)"

text \<open>
  The dictionary comprehension \<^verbatim>\<open>{Subshell(k): v for k, v in shells.items()}\<close>: the
  items are read in order, a later item replaces an earlier one with the same key.
\<close>

fun normalize_keys :: "(key \<times> int) list \<Rightarrow> (Subshell \<rightharpoonup> int) \<Rightarrow> error + (Subshell \<rightharpoonup> int)" where
  "normalize_keys [] acc = Inr acc"
| "normalize_keys ((k, v) # rest) acc =
     (case Subshell_of k of
        Inl e \<Rightarrow> Inl e
      | Inr s \<Rightarrow> normalize_keys rest (acc(s \<mapsto> v)))"

text \<open>The loop \<^verbatim>\<open>for shell in Subshell\<close> of the constructor.\<close>

fun init_loop ::
  "(Subshell \<rightharpoonup> int) \<Rightarrow> Subshell list \<Rightarrow> ElectronicStructure \<Rightarrow> error + ElectronicStructure" where
  "init_loop shells [] self = Inr self"
| "init_loop shells (shell # rest) self =
     (case shells shell of
        None \<Rightarrow> init_loop shells rest self
      | Some v \<Rightarrow>
          (case setitem self (Member shell) v of
             Inl e \<Rightarrow> Inl e
           | Inr self' \<Rightarrow> init_loop shells rest self'))"

definition ElectronicStructure_init :: "(key \<times> int) list \<Rightarrow> error + ElectronicStructure" where
  "ElectronicStructure_init shells =
     (case normalize_keys shells Map.empty of
        Inl e \<Rightarrow> Inl e
      | Inr shells' \<Rightarrow> init_loop shells' Subshells [])"

subsection \<open>Rendering\<close>

text \<open>The decimal digits of a Python int, as \<^verbatim>\<open>f"{occ}"\<close> gives them.\<close>

fun str_nat :: "nat \<Rightarrow> string" where
  "str_nat n =
     (if n < 10 then [char_of (48 + n)]
      else str_nat (n div 10) @ [char_of (48 + n mod 10)])"

definition str_int :: "int \<Rightarrow> string" where
  "str_int i = (if i < 0 then CHR ''-'' # str_nat (nat (- i)) else str_nat (nat i))"

text \<open>The superscript digits, each as the UTF-8 bytes of its code point.\<close>

definition superscript_map :: "(char \<times> string) list" where
  "superscript_map =
     [(CHR ''0'', [CHR 0xE2, CHR 0x81, CHR 0xB0]),
      (CHR ''1'', [CHR 0xC2, CHR 0xB9]),
      (CHR ''2'', [CHR 0xC2, CHR 0xB2]),
      (CHR ''3'', [CHR 0xC2, CHR 0xB3]),
      (CHR ''4'', [CHR 0xE2, CHR 0x81, CHR 0xB4]),
      (CHR ''5'', [CHR 0xE2, CHR 0x81, CHR 0xB5]),
      (CHR ''6'', [CHR 0xE2, CHR 0x81, CHR 0xB6]),
      (CHR ''7'', [CHR 0xE2, CHR 0x81, CHR 0xB7]),
      (CHR ''8'', [CHR 0xE2, CHR 0x81, CHR 0xB8]),
      (CHR ''9'', [CHR 0xE2, CHR 0x81, CHR 0xB9])]"

definition translate :: "string \<Rightarrow> string" where
  "translate s =
     concat (map (\<lambda>c. case map_of superscript_map c of None \<Rightarrow> [c] | Some u \<Rightarrow> u) s)"

fun ElectronicStructure_str :: "ElectronicStructure \<Rightarrow> string" where
  "ElectronicStructure_str [] = ''''"
| "ElectronicStructure_str ((shell, occ) # rest) =
     Subshell_value shell @ translate (str_int occ) @ ElectronicStructure_str rest"

subsection \<open>The ground state\<close>

text \<open>
  Assignment to a key of a built-in \<^verbatim>\<open>dict\<close>: the value of a present key is replaced
  where it stands, a new key is added at the end.
\<close>

fun dict_set :: "('k \<times> 'v) list \<Rightarrow> 'k \<Rightarrow> 'v \<Rightarrow> ('k \<times> 'v) list" where
  "dict_set [] k v = [(k, v)]"
| "dict_set ((k', v') # rest) k v =
     (if k' = k then (k, v) # rest else (k', v') # dict_set rest k v)"

text \<open>The loop \<^verbatim>\<open>for shell in Subshell\<close> of \<^verbatim>\<open>ground_state\<close>, with its \<^verbatim>\<open>break\<close>.\<close>

fun ground_loop :: "Subshell list \<Rightarrow> int \<Rightarrow> (key \<times> int) list \<Rightarrow> error + (key \<times> int) list" where
  "ground_loop [] num_elec structure = Inr structure"
| "ground_loop (shell # rest) num_elec structure =
     (case maximum_electrons (Member shell) of
        Inl e \<Rightarrow> Inl e
      | Inr m \<Rightarrow>
          (let shell_elec = min m num_elec;
               structure' = dict_set structure (Member shell) shell_elec;
               num_elec' = num_elec - shell_elec
           in if num_elec' = 0 then Inr structure'
              else ground_loop rest num_elec' structure'))"

definition ground_state :: "atom_data \<Rightarrow> element_arg \<Rightarrow> error + ElectronicStructure" where
  "ground_state d arg =
     (case Element_init d arg of
        Inl e \<Rightarrow> Inl e
      | Inr el \<Rightarrow>
          (case atomic_number d el of
             Inl e \<Rightarrow> Inl e
           | Inr num_elec \<Rightarrow>
               (case ground_loop Subshells num_elec [] of
                  Inl e \<Rightarrow> Inl e
                | Inr structure \<Rightarrow> ElectronicStructure_init structure)))"

subsection \<open>Vectors and matrices\<close>

type_synonym vec3 = "real \<times> real \<times> real"

text \<open>A \<open>3 \<times> 3\<close> array: its three rows.\<close>

type_synonym mat3 = "vec3 \<times> vec3 \<times> vec3"

type_synonym vec4 = "real \<times> real \<times> real \<times> real"

type_synonym mat4 = "vec4 \<times> vec4 \<times> vec4 \<times> vec4"

definition eye3 :: mat3 where
  "eye3 = ((1, 0, 0), (0, 1, 0), (0, 0, 1))"

fun vsub :: "vec3 \<Rightarrow> vec3 \<Rightarrow> vec3" where
  "vsub (x1, y1, z1) (x2, y2, z2) = (x1 - x2, y1 - y2, z1 - z2)"

fun dot3 :: "vec3 \<Rightarrow> vec3 \<Rightarrow> real" where
  "dot3 (x1, y1, z1) (x2, y2, z2) = x1 * x2 + y1 * y2 + z1 * z2"

text \<open>\<^verbatim>\<open>np.linalg.norm\<close> of a vector.\<close>

definition norm3 :: "vec3 \<Rightarrow> real" where
  "norm3 v = sqrt (dot3 v v)"

fun mat_vec :: "mat3 \<Rightarrow> vec3 \<Rightarrow> vec3" where
  "mat_vec (r1, r2, r3) v = (dot3 r1 v, dot3 r2 v, dot3 r3 v)"

fun transpose3 :: "mat3 \<Rightarrow> mat3" where
  "transpose3 ((a, b, c), (d, e, f), (g, h, i)) = ((a, d, g), (b, e, h), (c, f, i))"

fun mat_mul :: "mat3 \<Rightarrow> mat3 \<Rightarrow> mat3" where
  "mat_mul (r1, r2, r3) m =
     (case transpose3 m of
        (c1, c2, c3) \<Rightarrow>
          ((dot3 r1 c1, dot3 r1 c2, dot3 r1 c3),
           (dot3 r2 c1, dot3 r2 c2, dot3 r2 c3),
           (dot3 r3 c1, dot3 r3 c2, dot3 r3 c3)))"

fun det3 :: "mat3 \<Rightarrow> real" where
  "det3 ((a, b, c), (d, e, f), (g, h, i)) =
     a * (e * i - f * h) - b * (d * i - f * g) + c * (d * h - e * g)"

text \<open>
  \<^verbatim>\<open>np.linalg.inv\<close> on exact reals: the adjugate over the determinant, and an error for
  a singular matrix. numpy computes the inverse in floating point; the two agree on the
  identity matrix, which is the only matrix the properties below invert.
\<close>

fun inv3 :: "mat3 \<Rightarrow> error + mat3" where
  "inv3 ((a, b, c), (d, e, f), (g, h, i)) =
     (let dt = det3 ((a, b, c), (d, e, f), (g, h, i)) in
      if dt = 0 then Inl LinAlgError
      else Inr (((e * i - f * h) / dt, (c * h - b * i) / dt, (b * f - c * e) / dt),
                ((f * g - d * i) / dt, (a * i - c * g) / dt, (c * d - a * f) / dt),
                ((d * h - e * g) / dt, (b * g - a * h) / dt, (a * e - b * d) / dt)))"

subsection \<open>The affine transforms (\<^verbatim>\<open>affine\<close>)\<close>

text \<open>
  Modelled from the spec: the module \<^verbatim>\<open>affine\<close>, whose \<^verbatim>\<open>change_of_basis\<close> and
  \<^verbatim>\<open>transform\<close> are imported by \<^verbatim>\<open>atom.py\<close>, is not among the source files. The spec
  (section 4.1): \<^verbatim>\<open>change_of_basis(basis_from, basis_to)\<close> takes two sets of three basis
  vectors and returns the matrix \<open>M\<close> such that \<^verbatim>\<open>transform(M, v)\<close> maps a vector
  expressed in \<^verbatim>\<open>basis_from\<close> coordinates into \<^verbatim>\<open>basis_to\<close> coordinates, "computed via
  matrix inversion of the target basis composed with the source basis", and "fails with a
  numeric error if a basis is singular". The basis vectors are the columns of the matrix
  that maps coordinates to the standard frame.
\<close>

definition change_of_basis :: "mat3 \<Rightarrow> mat3 \<Rightarrow> error + mat3" where
  "change_of_basis basis_from basis_to =
     (case inv3 (transpose3 basis_to) of
        Inl e \<Rightarrow> Inl e
      | Inr standard_to_basis_to \<Rightarrow> Inr (mat_mul standard_to_basis_to (transpose3 basis_from)))"

text \<open>
  Modelled from the spec: \<^verbatim>\<open>transform(matrix, vector)\<close> "accepts either a 3\<times>3 linear
  matrix (direct multiply) or a 4\<times>4 homogeneous matrix (pad vector with a trailing 1,
  multiply, return the first three components)".
\<close>

datatype matrix = Linear mat3 | Homogeneous mat4

fun transform :: "matrix \<Rightarrow> vec3 \<Rightarrow> vec3" where
  "transform (Linear m) v = mat_vec m v"
| "transform (Homogeneous ((a, b, c, d), (e, f, g, h), (i, j, k, l), r4)) (x, y, z) =
     (a * x + b * y + c * z + d, e * x + f * y + g * z + h, i * x + j * y + k * z + l)"

subsection \<open>Coordinate conversions\<close>

text \<open>
  Both conversions are computed here on exact reals, where converting to real coordinates
  and back is the identity for an invertible basis. How far the float64 result of the
  code is from the original vector depends on rounding, which this embedding does not
  model; no tolerance of the round trip is stated.
\<close>

definition real_coords :: "vec3 \<Rightarrow> mat3 \<Rightarrow> error + vec3" where
  "real_coords coords lattice_vectors =
     (case change_of_basis lattice_vectors eye3 of
        Inl e \<Rightarrow> Inl e
      | Inr COB \<Rightarrow> Inr (transform (Linear COB) coords))"

definition frac_coords :: "vec3 \<Rightarrow> mat3 \<Rightarrow> error + vec3" where
  "frac_coords coords lattice_vectors =
     (case change_of_basis eye3 lattice_vectors of
        Inl e \<Rightarrow> Inl e
      | Inr COB \<Rightarrow> Inr (transform (Linear COB) coords))"

subsection \<open>Atom\<close>

text \<open>
  The class \<^verbatim>\<open>Lattice\<close> is not among the source files. Its instances are the values of a
  type variable \<open>'l\<close>; its \<^verbatim>\<open>__eq__\<close> (\<open>lattice_eq\<close>), its attribute
  \<^verbatim>\<open>lattice_vectors\<close> and the instance \<^verbatim>\<open>Lattice(np.eye(3))\<close> (\<open>default_lattice\<close>) are
  parameters of the functions that use them. A lattice object is truthy, and
  \<^verbatim>\<open>l1 != l2\<close> is the negation of \<^verbatim>\<open>l1 == l2\<close>, as for any class that defines neither
  \<^verbatim>\<open>__bool__\<close>, \<^verbatim>\<open>__len__\<close> nor \<^verbatim>\<open>__ne__\<close>.

  \<open>cls\<close> is the class of the object (\<^verbatim>\<open>self.__class__\<close>): \<^verbatim>\<open>Atom\<close> itself or a subclass
  that inherits \<^verbatim>\<open>__init__\<close>.
\<close>

datatype pyclass = Atom_class | Subclass string

record 'l Atom = Element +
  coords_fractional :: vec3
  lattice :: 'l
  displacement :: vec3
  magmom :: pyfloat
  occupancy :: real
  tag :: "int option"
  cls :: pyclass

text \<open>
  \<^verbatim>\<open>Atom.__init__\<close>. \<^verbatim>\<open>None\<close> is the default of \<open>lattice\<close>, \<open>displacement\<close>, \<open>magmom\<close>
  and \<open>tag\<close>, \<open>1.0\<close> the default of \<open>occupancy\<close>. \<^verbatim>\<open>x or y\<close> is \<open>x\<close> when \<open>x\<close> is truthy
  and \<open>y\<close> otherwise, and \<open>y\<close> is evaluated only then; \<^verbatim>\<open>None\<close> is not truthy.
\<close>

definition Atom_init ::
  "atom_data \<Rightarrow> 'l \<Rightarrow> pyclass \<Rightarrow> element_arg \<Rightarrow> vec3 \<Rightarrow> 'l option \<Rightarrow> vec3 option \<Rightarrow>
   pyfloat option \<Rightarrow> real \<Rightarrow> int option \<Rightarrow> error + 'l Atom" where
  "Atom_init d default_lattice c el coords lat disp mm occ tg =
     (case Element_init d el of
        Inl e \<Rightarrow> Inl e
      | Inr base \<Rightarrow>
          (case (case mm of
                   None \<Rightarrow> magnetic_moment_ground d (element base)
                 | Some m \<Rightarrow> if truthy m then Inr m else magnetic_moment_ground d (element base)) of
             Inl e \<Rightarrow> Inl e
           | Inr m \<Rightarrow>
               Inr \<lparr>element = element base,
                    coords_fractional = coords,
                    lattice = (case lat of None \<Rightarrow> default_lattice | Some l \<Rightarrow> l),
                    displacement = (case disp of None \<Rightarrow> (0, 0, 0) | Some u \<Rightarrow> u),
                    magmom = m,
                    occupancy = occ,
                    tag = tg,
                    cls = c\<rparr>))"

text \<open>\<^verbatim>\<open>np.allclose(a, b, atol=atol)\<close> on one component, with numpy's default \<^verbatim>\<open>rtol\<close>.\<close>

definition isclose :: "real \<Rightarrow> real \<Rightarrow> real \<Rightarrow> bool" where
  "isclose atol a b = (\<bar>a - b\<bar> \<le> atol + 1 / 100000 * \<bar>b\<bar>)"

fun allclose :: "real \<Rightarrow> vec3 \<Rightarrow> vec3 \<Rightarrow> bool" where
  "allclose atol (x1, y1, z1) (x2, y2, z2) =
     (isclose atol x1 x2 \<and> isclose atol y1 y2 \<and> isclose atol z1 z2)"

definition Atom_eq :: "('l \<Rightarrow> 'l \<Rightarrow> bool) \<Rightarrow> 'l Atom \<Rightarrow> 'l Atom \<Rightarrow> bool" where
  "Atom_eq lattice_eq self other =
     (Element_eq self other
      \<and> float_eq (magmom self) (magmom other)
      \<and> allclose (1 / 1000) (coords_fractional self) (coords_fractional other)
      \<and> lattice_eq (lattice self) (lattice other)
      \<and> allclose (1 / 1000) (displacement self) (displacement other))"

text \<open>\<^verbatim>\<open>np.round(x, 3)\<close>: the nearest multiple of \<open>1/1000\<close>, a tie going to the even one.\<close>

definition rint :: "real \<Rightarrow> int" where
  "rint x =
     (let f = \<lfloor>x\<rfloor>; r = x - of_int f
      in if r < 1 / 2 then f else if 1 / 2 < r then f + 1 else if even f then f else f + 1)"

definition round3 :: "real \<Rightarrow> real" where
  "round3 x = of_int (rint (x * 1000)) / 1000"

fun round3_vec :: "vec3 \<Rightarrow> vec3" where
  "round3_vec (x, y, z) = (round3 x, round3 y, round3 z)"

text \<open>
  The tuple that \<^verbatim>\<open>Atom.__hash__\<close> passes to \<^verbatim>\<open>hash\<close>. Its first component is
  \<^verbatim>\<open>Element.__hash__\<close>, the hash of the atomic number, which for an int of this size is
  the number itself. The hash of the atom is a function of this tuple.
\<close>

definition Atom_hash_key ::
  "atom_data \<Rightarrow> 'l Atom \<Rightarrow> error + (int \<times> pyfloat \<times> vec3 \<times> 'l \<times> vec3)" where
  "Atom_hash_key d self =
     (case atomic_number d self of
        Inl e \<Rightarrow> Inl e
      | Inr z \<Rightarrow>
          Inr (z, magmom self, round3_vec (coords_fractional self), lattice self,
               round3_vec (displacement self)))"

text \<open>
  \<^verbatim>\<open>Atom.transform\<close>. The method assigns no attribute of \<open>self\<close> and works on a copy of
  the coordinates; it returns the receiver as the call leaves it, and the new atom.
\<close>

definition Atom_transform ::
  "atom_data \<Rightarrow> 'l \<Rightarrow> 'l Atom \<Rightarrow> matrix list \<Rightarrow> error + ('l Atom \<times> 'l Atom)" where
  "Atom_transform d default_lattice self matrices =
     (let coords = foldl (\<lambda>v m. transform m v) (coords_fractional self) matrices
      in case Atom_init d default_lattice (cls self) (Sym (element self)) coords
                (Some (lattice self)) (Some (displacement self)) (Some (magmom self))
                (occupancy self) None of
           Inl e \<Rightarrow> Inl e
         | Inr atm \<Rightarrow> Inr (self, atm))"

definition coords_cartesian :: "('l \<Rightarrow> mat3) \<Rightarrow> 'l Atom \<Rightarrow> error + vec3" where
  "coords_cartesian lattice_vectors self =
     real_coords (coords_fractional self) (lattice_vectors (lattice self))"

subsection \<open>Distances\<close>

definition distance_fractional :: "('l \<Rightarrow> 'l \<Rightarrow> bool) \<Rightarrow> 'l Atom \<Rightarrow> 'l Atom \<Rightarrow> error + real" where
  "distance_fractional lattice_eq atm1 atm2 =
     (if \<not> lattice_eq (lattice atm1) (lattice atm2) then Inl DistanceUndefined
      else Inr (norm3 (vsub (coords_fractional atm1) (coords_fractional atm2))))"

definition distance_cartesian ::
  "('l \<Rightarrow> 'l \<Rightarrow> bool) \<Rightarrow> ('l \<Rightarrow> mat3) \<Rightarrow> 'l Atom \<Rightarrow> 'l Atom \<Rightarrow> error + real" where
  "distance_cartesian lattice_eq lattice_vectors atm1 atm2 =
     (if \<not> lattice_eq (lattice atm1) (lattice atm2) then Inl DistanceUndefined
      else (case coords_cartesian lattice_vectors atm1 of
              Inl e \<Rightarrow> Inl e
            | Inr c1 \<Rightarrow>
                (case coords_cartesian lattice_vectors atm2 of
                   Inl e \<Rightarrow> Inl e
                 | Inr c2 \<Rightarrow> Inr (norm3 (vsub c1 c2)))))"

subsection \<open>A table for examples\<close>

text \<open>
  Modelled from the spec: the periodic-table data source is an external collaborator
  that provides, keyed by the normalized symbol, the validity test, the mapping between
  symbols and atomic numbers and the ground-state magnetic moment (spec, section 6).
  This table holds the first ten elements, with the moments Hund's rule gives them. It
  only serves as a concrete instance of the parameter \<open>d\<close>.
\<close>

definition sample_symbols :: "string list" where
  "sample_symbols = [''H'', ''He'', ''Li'', ''Be'', ''B'', ''C'', ''N'', ''O'', ''F'', ''Ne'']"

definition sample_data :: atom_data where
  "sample_data =
     \<lparr>chemical_symbols = sample_symbols,
      NUM_TO_ELEM = map_of (zip [1, 2, 3, 4, 5, 6, 7, 8, 9, 10] sample_symbols),
      ELEM_TO_NUM = map_of (zip sample_symbols [1, 2, 3, 4, 5, 6, 7, 8, 9, 10]),
      ELEM_TO_MAGMOM =
        map_of (zip sample_symbols (map Float [1, 0, 1, 0, 1, 2, 3, 2, 1, 0]))\<rparr>"

text \<open>
  A hydrogen atom on the lattice with the identity basis, as
  \<^verbatim>\<open>Atom("H", coords)\<close> builds it with the table above, given its coordinates and its
  magnetic moment. In the examples a lattice is the array of its three vectors, and two
  lattices are equal when their vectors are.
\<close>

definition hydrogen :: "vec3 \<Rightarrow> real \<Rightarrow> mat3 Atom" where
  "hydrogen coords m =
     \<lparr>element = ''H'', coords_fractional = coords, lattice = eye3,
      displacement = (0, 0, 0), magmom = Float m, occupancy = 1, tag = None,
      cls = Atom_class\<rparr>"

section \<open>Properties\<close>

declare str_nat.simps [simp del]

subsection \<open>Subshells and their maxima\<close>

lemma maximum_electrons_Member:
  "maximum_electrons (Member s) =
     Inr (if last (Subshell_value s) = CHR ''s'' then 2
          else if last (Subshell_value s) = CHR ''p'' then 6
          else if last (Subshell_value s) = CHR ''d'' then 10 else 14)"
  by (cases s) (simp_all add: maximum_electrons_def Subshell_of_def maxima_def)

lemma last_Subshell_value:
  "last (Subshell_value s) \<in> {CHR ''s'', CHR ''p'', CHR ''d'', CHR ''f''}"
  by (cases s) simp_all

lemma maximum_electrons_normalized:
  "Subshell_of k = Inr s \<Longrightarrow> maximum_electrons k = maximum_electrons (Member s)"
  by (simp add: maximum_electrons_def Subshell_of_def)

lemma setitem_checked:
  "Subshell_of k = Inr s \<Longrightarrow> maximum_electrons (Member s) = Inr m \<Longrightarrow>
   setitem self k v =
     (if m < v then Inl (InvalidPopulation v s) else Inr self)"
  by (simp add: setitem_def)

subsection \<open>What the constructor of an electronic structure keeps\<close>

lemma setitem_unchanged: "isl (setitem self k v) \<or> setitem self k v = Inr self"
  by (auto simp: setitem_def split: sum.splits)

lemma init_loop_unchanged:
  "isl (init_loop shells xs self) \<or> init_loop shells xs self = Inr self"
proof (induction xs)
  case Nil
  show ?case by simp
next
  case (Cons x xs)
  show ?case
  proof (cases "shells x")
    case None
    with Cons show ?thesis by simp
  next
    case (Some v)
    from setitem_unchanged [of self "Member x" v] Cons Some show ?thesis
      by (auto split: sum.splits)
  qed
qed

lemma ElectronicStructure_init_empty:
  "isl (ElectronicStructure_init shells) \<or> ElectronicStructure_init shells = Inr []"
  using init_loop_unchanged [of _ Subshells "[]"]
  by (auto simp: ElectronicStructure_init_def split: sum.splits)

text \<open>
  Claim C1. For every subshell \<open>s\<close> and every \<open>v\<close> from \<open>0\<close> to the maximum of \<open>s\<close>,
  after the occupancy of \<open>s\<close> is set to \<open>v\<close> (directly or through the constructor) the
  occupancy retrievable for \<open>s\<close> is \<open>v\<close>. The code does not do this: \<^verbatim>\<open>__setitem__\<close>
  leaves the dictionary as it found it whenever it returns, the constructor, which
  stores through \<^verbatim>\<open>__setitem__\<close>, returns the empty structure whenever it returns, and
  after \<^verbatim>\<open>ElectronicStructure({"1s": 2})\<close> the lookup of \<^verbatim>\<open>Subshell.one_s\<close> raises
  \<^verbatim>\<open>KeyError\<close>.
\<close>

theorem setitem_stores_nothing:
  "(isl (setitem self k v) \<or> setitem self k v = Inr self)
   \<and> (isl (ElectronicStructure_init shells) \<or> ElectronicStructure_init shells = Inr [])
   \<and> maximum_electrons (Label ''1s'') = Inr 2
   \<and> setitem [] (Label ''1s'') 2 = Inr []
   \<and> ElectronicStructure_init [(Label ''1s'', 2)] = Inr []
   \<and> getitem [] one_s = Inl KeyError"
proof -
  have "maximum_electrons (Label ''1s'') = Inr 2"
    by code_simp
  moreover have "setitem [] (Label ''1s'') 2 = Inr []"
    by code_simp
  moreover have "ElectronicStructure_init [(Label ''1s'', 2)] = Inr []"
    by code_simp
  moreover have "getitem [] one_s = Inl KeyError"
    by (simp add: getitem_def)
  ultimately show ?thesis
    using setitem_unchanged [of self k v] ElectronicStructure_init_empty [of shells]
    by blast
qed

text \<open>
  Claim C2. \<^verbatim>\<open>ElectronicStructure.ground_state(10)\<close> renders as the labels
  \<^verbatim>\<open>1s\<close>, \<^verbatim>\<open>2s\<close>, \<^verbatim>\<open>2p\<close>, each followed by its occupancy 2, 2, 6 as a superscript
  digit. The code does not do this. The loop of \<^verbatim>\<open>ground_state\<close> builds
  the dictionary \<open>1s: 2, 2s: 2, 2p: 6\<close>, and a structure holding these items would
  render as claimed; but the constructor keeps none of them, so the structure returned
  for neon is empty and renders as the empty string. The same holds for every element:
  \<^verbatim>\<open>ground_state\<close> returns the empty structure whenever it returns.
\<close>

theorem ground_state_neon_renders_empty:
  "ground_loop Subshells 10 [] = Inr [(Member one_s, 2), (Member two_s, 2), (Member two_p, 6)]
   \<and> ElectronicStructure_str [(one_s, 2), (two_s, 2), (two_p, 6)] =
       [CHR ''1'', CHR ''s'', CHR 0xC2, CHR 0xB2,
        CHR ''2'', CHR ''s'', CHR 0xC2, CHR 0xB2,
        CHR ''2'', CHR ''p'', CHR 0xE2, CHR 0x81, CHR 0xB6]
   \<and> ground_state sample_data (Num 10) = Inr []
   \<and> ElectronicStructure_str [] = []
   \<and> (isl (ground_state d arg) \<or> ground_state d arg = Inr [])"
proof -
  have "ground_loop Subshells 10 [] =
          Inr [(Member one_s, 2), (Member two_s, 2), (Member two_p, 6)]"
    by code_simp
  moreover have "ElectronicStructure_str [(one_s, 2), (two_s, 2), (two_p, 6)] =
       [CHR ''1'', CHR ''s'', CHR 0xC2, CHR 0xB2,
        CHR ''2'', CHR ''s'', CHR 0xC2, CHR 0xB2,
        CHR ''2'', CHR ''p'', CHR 0xE2, CHR 0x81, CHR 0xB6]"
    by code_simp
  moreover have "ground_state sample_data (Num 10) = Inr []"
    by code_simp
  moreover have "isl (ground_state d arg) \<or> ground_state d arg = Inr []"
    using ElectronicStructure_init_empty
    by (auto simp: ground_state_def split: sum.splits)
  ultimately show ?thesis by simp
qed

text \<open>
  Claim C3, as amended. Setting the occupancy of a subshell fails with the
  invalid-population error if and only if the value exceeds the maximum of the
  subshell, which is 2, 6, 10 or 14 for a label ending in s, p, d or f; otherwise the
  call returns (and leaves the dictionary as it was). In particular, 3 electrons in
  \<^verbatim>\<open>"1s"\<close> fail. The claim as stated also has a negative value fail; the code has no
  lower bound.
\<close>

theorem setitem_fails_iff_above_maximum:
  assumes "Subshell_of k = Inr s"
  shows "\<exists>m. maximum_electrons k = Inr m
           \<and> m = (if last (Subshell_value s) = CHR ''s'' then 2
                  else if last (Subshell_value s) = CHR ''p'' then 6
                  else if last (Subshell_value s) = CHR ''d'' then 10 else 14)
           \<and> last (Subshell_value s) \<in> {CHR ''s'', CHR ''p'', CHR ''d'', CHR ''f''}
           \<and> isl (setitem self k v) = (m < v)
           \<and> setitem self k v =
               (if m < v then Inl (InvalidPopulation v s) else Inr self)"
proof -
  obtain m where m: "maximum_electrons (Member s) = Inr m"
    and mv: "m = (if last (Subshell_value s) = CHR ''s'' then 2
                  else if last (Subshell_value s) = CHR ''p'' then 6
                  else if last (Subshell_value s) = CHR ''d'' then 10 else 14)"
    using maximum_electrons_Member [of s] by blast
  have "maximum_electrons k = Inr m"
    using maximum_electrons_normalized [OF assms] m by simp
  moreover have "setitem self k v =
      (if m < v then Inl (InvalidPopulation v s) else Inr self)"
    using setitem_checked [OF assms m] .
  moreover from this have "isl (setitem self k v) = (m < v)"
    by simp
  ultimately show ?thesis
    using mv last_Subshell_value [of s] by blast
qed

theorem setitem_fails_iff_above_maximum_witness:
  "Subshell_of (Label ''1s'') = Inr one_s
   \<and> maximum_electrons (Label ''1s'') = Inr 2
   \<and> isl (setitem [] (Label ''1s'') 3)
   \<and> setitem [] (Label ''1s'') 3 = Inl (InvalidPopulation 3 one_s)
   \<and> setitem [] (Label ''1s'') 2 = Inr []"
proof -
  have h: "Subshell_of (Label ''1s'') = Inr one_s"
    by code_simp
  from setitem_fails_iff_above_maximum [OF h, of "[]" 3]
       setitem_fails_iff_above_maximum [OF h, of "[]" 2]
  show ?thesis using h by auto
qed

theorem setitem_negative_counterexample:
  "maximum_electrons (Label ''1s'') = Inr 2
   \<and> setitem [] (Label ''1s'') (- 1) = Inr []
   \<and> \<not> (isl (setitem [] (Label ''1s'') (- 1)) = (2 < (- 1 :: int) \<or> (- 1 :: int) < 0))"
proof -
  have "maximum_electrons (Label ''1s'') = Inr 2"
    by code_simp
  moreover have "setitem [] (Label ''1s'') (- 1) = Inr []"
    by code_simp
  ultimately show ?thesis by simp
qed

subsection \<open>Case normalization\<close>

lemma to_lower_idem: "to_lower (to_lower c) = to_lower c"
  by (auto simp: to_lower_def is_upper_def)

lemma to_upper_idem: "to_upper (to_upper c) = to_upper c"
  by (auto simp: to_upper_def is_lower_def)

lemma is_cased_to_lower: "is_cased (to_lower c) = is_cased c"
  by (auto simp: to_lower_def is_cased_def is_upper_def is_lower_def)

lemma is_cased_to_upper: "is_cased (to_upper c) = is_cased c"
  by (auto simp: to_upper_def is_cased_def is_upper_def is_lower_def)

lemma title_from_idem: "title_from p (title_from p s) = title_from p s"
  by (induction s arbitrary: p)
     (simp_all add: to_lower_idem to_upper_idem is_cased_to_lower is_cased_to_upper)

lemma title_idem: "title (title s) = title s"
  by (simp add: title_def title_from_idem)






subsection \<open>Matrices and coordinates\<close>


lemma real_coords_value: "real_coords v L = Inr (mat_vec (transpose3 L) v)"
  by (cases L rule: prod_cases3; cases v)
     (auto simp: real_coords_def change_of_basis_def eye3_def)

lemma norm3_vsub_commute: "norm3 (vsub x y) = norm3 (vsub y x)"
  by (cases x; cases y) (simp add: norm3_def algebra_simps)

subsection \<open>Atoms\<close>

lemma Element_init_Inr:
  assumes "Element_init d el = Inr base"
  shows "element base \<in> valid_symbols d \<and> title (element base) = element base"
proof (cases el)
  case (Num n)
  with assms show ?thesis
    by (auto simp: Element_init_def Let_def title_idem split: option.splits if_splits)
next
  case (Sym s)
  with assms show ?thesis
    by (auto simp: Element_init_def Let_def title_idem split: if_splits)
qed

text \<open>What holds of every atom the constructor returns.\<close>

lemma Atom_init_Inr:
  assumes "Atom_init d dl c el co lat disp mm occ tg = Inr a"
  shows "element a \<in> valid_symbols d \<and> title (element a) = element a
         \<and> coords_fractional a = co
         \<and> lattice a = (case lat of None \<Rightarrow> dl | Some l \<Rightarrow> l)
         \<and> displacement a = (case disp of None \<Rightarrow> (0, 0, 0) | Some u \<Rightarrow> u)
         \<and> occupancy a = occ \<and> tag a = tg \<and> cls a = c
         \<and> (truthy (magmom a) \<or> magnetic_moment_ground d (element a) = Inr (magmom a))"
proof -
  from assms obtain base where base: "Element_init d el = Inr base"
    by (auto simp: Atom_init_def split: sum.splits)
  note wf = Element_init_Inr [OF base]
  from assms base wf show ?thesis
    by (auto simp: Atom_init_def split: sum.splits option.splits if_splits)
qed

text \<open>
  The value of \<^verbatim>\<open>transform\<close> for a receiver whose element is a valid, normalized
  symbol: the receiver is returned as it was, and the new atom is the receiver with the
  transformed coordinates, no tag, and either its own moment (when that is truthy) or the
  ground-state moment of its element.
\<close>

lemma Atom_transform_value:
  assumes "element a \<in> valid_symbols d" and "title (element a) = element a"
  shows "Atom_transform d dl a ms =
           (case (if truthy (magmom a) then Inr (magmom a)
                  else magnetic_moment_ground d (element a)) of
              Inl e \<Rightarrow> Inl e
            | Inr m \<Rightarrow>
                Inr (a, a\<lparr>coords_fractional :=
                            foldl (\<lambda>v m. transform m v) (coords_fractional a) ms,
                         magmom := m, tag := None\<rparr>))"
  using assms
  by (auto simp: Atom_transform_def Atom_init_def Element_init_def Let_def split: sum.splits)

lemma Atom_transform_carried:
  assumes "element a \<in> valid_symbols d" and "title (element a) = element a"
    and "truthy (magmom a) \<or> magnetic_moment_ground d (element a) = Inr (magmom a)"
  shows "Atom_transform d dl a ms =
           Inr (a, a\<lparr>coords_fractional := foldl (\<lambda>v m. transform m v) (coords_fractional a) ms,
                    tag := None\<rparr>)"
  using assms(3) unfolding Atom_transform_value [OF assms(1,2)]
  by auto



lemma isclose_within: "\<bar>x - y\<bar> < atol \<Longrightarrow> isclose atol x y"
  by (simp add: isclose_def)


lemma Atom_eq_within_tolerance:
  assumes "element a = element b" and "float_eq (magmom a) (magmom b)"
    and "lattice_eq (lattice a) (lattice b)"
    and "coords_fractional a = (x1, y1, z1)" and "coords_fractional b = (x2, y2, z2)"
    and "\<bar>x1 - x2\<bar> < 1 / 1000" and "\<bar>y1 - y2\<bar> < 1 / 1000" and "\<bar>z1 - z2\<bar> < 1 / 1000"
    and "displacement a = (u1, v1, w1)" and "displacement b = (u2, v2, w2)"
    and "\<bar>u1 - u2\<bar> < 1 / 1000" and "\<bar>v1 - v2\<bar> < 1 / 1000" and "\<bar>w1 - w2\<bar> < 1 / 1000"
  shows "Atom_eq lattice_eq a b"
  using assms by (simp add: Atom_eq_def Element_eq_def isclose_within)

lemma title_H: "title ''H'' = ''H''"
  by code_simp

lemma H_valid: "''H'' \<in> valid_symbols sample_data"
  by (simp add: valid_symbols_def sample_data_def sample_symbols_def)

lemma H_ground: "magnetic_moment_ground sample_data ''H'' = Inr (Float 1)"
  by (simp add: magnetic_moment_ground_def sample_data_def sample_symbols_def)

lemma hydrogen_init:
  "Atom_init sample_data eye3 Atom_class (Sym ''H'') co None None None 1 None =
     Inr (hydrogen co 1)"
  by (simp add: Atom_init_def Element_init_def Let_def title_H H_valid H_ground hydrogen_def)

lemma hydrogen_zero_transform:
  "Atom_transform sample_data eye3 (hydrogen co 0) [] = Inr (hydrogen co 0, hydrogen co 1)"
  by (simp add: Atom_transform_def Atom_init_def Element_init_def Let_def title_H H_valid
        H_ground hydrogen_def truthy_def)

text \<open>
  Claim C4. Two atoms with equal element, equal lattice and identical magnetic moment
  whose coordinates and displacements differ by less than \<open>1/1000\<close> in every component
  compare equal (lemma \<open>Atom_eq_within_tolerance\<close>), and equal atoms hash equal. The
  code does not do the latter: the hydrogen atoms at \<open>(0.0004, 0, 0)\<close> and
  \<open>(0.0006, 0, 0)\<close> compare equal, and the tuples that \<^verbatim>\<open>__hash__\<close> hashes differ,
  since the coordinates round to \<open>0\<close> and to \<open>0.001\<close>.
\<close>

theorem equal_atoms_hash_differently:
  "Atom_init sample_data eye3 Atom_class (Sym ''H'') (4 / 10000, 0, 0) None None None 1 None
     = Inr (hydrogen (4 / 10000, 0, 0) 1)
   \<and> Atom_init sample_data eye3 Atom_class (Sym ''H'') (6 / 10000, 0, 0) None None None 1 None
     = Inr (hydrogen (6 / 10000, 0, 0) 1)
   \<and> Atom_eq (=) (hydrogen (4 / 10000, 0, 0) 1) (hydrogen (6 / 10000, 0, 0) 1)
   \<and> Atom_eq (=) (hydrogen (6 / 10000, 0, 0) 1) (hydrogen (4 / 10000, 0, 0) 1)
   \<and> Atom_hash_key sample_data (hydrogen (4 / 10000, 0, 0) 1)
       = Inr (1, Float 1, (0, 0, 0), eye3, (0, 0, 0))
   \<and> Atom_hash_key sample_data (hydrogen (6 / 10000, 0, 0) 1)
       = Inr (1, Float 1, (1 / 1000, 0, 0), eye3, (0, 0, 0))
   \<and> Atom_hash_key sample_data (hydrogen (4 / 10000, 0, 0) 1)
       \<noteq> Atom_hash_key sample_data (hydrogen (6 / 10000, 0, 0) 1)"
proof -
  have eq1: "Atom_eq (=) (hydrogen (4 / 10000, 0, 0) 1) (hydrogen (6 / 10000, 0, 0) 1)"
    by (simp add: Atom_eq_def Element_eq_def hydrogen_def isclose_def float_eq_def)
  have eq2: "Atom_eq (=) (hydrogen (6 / 10000, 0, 0) 1) (hydrogen (4 / 10000, 0, 0) 1)"
    by (simp add: Atom_eq_def Element_eq_def hydrogen_def isclose_def float_eq_def)
  have z: "atomic_number sample_data (hydrogen co m) = Inr 1" for co m
    by (simp add: atomic_number_def sample_data_def sample_symbols_def hydrogen_def)
  have h4: "Atom_hash_key sample_data (hydrogen (4 / 10000, 0, 0) 1)
              = Inr (1, Float 1, (0, 0, 0), eye3, (0, 0, 0))"
    by (simp add: Atom_hash_key_def z) (simp add: hydrogen_def round3_def rint_def)
  have h6: "Atom_hash_key sample_data (hydrogen (6 / 10000, 0, 0) 1)
              = Inr (1, Float 1, (1 / 1000, 0, 0), eye3, (0, 0, 0))"
    by (simp add: Atom_hash_key_def z) (simp add: hydrogen_def round3_def rint_def)
  have ne: "Atom_hash_key sample_data (hydrogen (4 / 10000, 0, 0) 1)
              \<noteq> Atom_hash_key sample_data (hydrogen (6 / 10000, 0, 0) 1)"
    unfolding h4 h6 by simp
  show ?thesis
    using eq1 eq2 h4 h6 ne hydrogen_init by blast
qed

text \<open>
  Claim C5. \<^verbatim>\<open>distance_fractional\<close> and \<^verbatim>\<open>distance_cartesian\<close> fail with the
  distance-undefined error if and only if the lattices of the two atoms compare
  unequal, and for two atoms whose lattices compare equal (whichever is asked first)
  both are symmetric.
\<close>

theorem distance_undefined_iff_unequal_lattices:
  "(distance_fractional lattice_eq a b = Inl DistanceUndefined)
       = (\<not> lattice_eq (lattice a) (lattice b))
   \<and> isl (distance_fractional lattice_eq a b) = (\<not> lattice_eq (lattice a) (lattice b))
   \<and> (distance_cartesian lattice_eq lattice_vectors a b = Inl DistanceUndefined)
       = (\<not> lattice_eq (lattice a) (lattice b))
   \<and> isl (distance_cartesian lattice_eq lattice_vectors a b)
       = (\<not> lattice_eq (lattice a) (lattice b))
   \<and> (lattice_eq (lattice a) (lattice b) \<and> lattice_eq (lattice b) (lattice a) \<longrightarrow>
        distance_fractional lattice_eq a b = distance_fractional lattice_eq b a
        \<and> distance_cartesian lattice_eq lattice_vectors a b
            = distance_cartesian lattice_eq lattice_vectors b a)"
  by (simp add: distance_fractional_def distance_cartesian_def coords_cartesian_def
        real_coords_value norm3_vsub_commute)

theorem distance_undefined_iff_unequal_lattices_witness:
  "distance_fractional (=) (hydrogen (0, 0, 0) 1) (hydrogen (1, 0, 0) 1) = Inr 1
   \<and> distance_fractional (=) (hydrogen (1, 0, 0) 1) (hydrogen (0, 0, 0) 1) = Inr 1
   \<and> distance_cartesian (=) (\<lambda>l. l) (hydrogen (0, 0, 0) 1) (hydrogen (1, 0, 0) 1) = Inr 1
   \<and> distance_cartesian (=) (\<lambda>l. l) (hydrogen (1, 0, 0) 1) (hydrogen (0, 0, 0) 1) = Inr 1
   \<and> distance_cartesian (=) (\<lambda>l. l) (hydrogen (0, 0, 0) 1)
       ((hydrogen (1, 0, 0) 1)\<lparr>lattice := ((2, 0, 0), (0, 2, 0), (0, 0, 2))\<rparr>)
       = Inl DistanceUndefined"
proof -
  have l: "lattice (hydrogen (0, 0, 0) 1) = lattice (hydrogen (1, 0, 0) 1)"
    by (simp add: hydrogen_def)
  have f: "distance_fractional (=) (hydrogen (0, 0, 0) 1) (hydrogen (1, 0, 0) 1) = Inr 1"
    by (simp add: distance_fractional_def hydrogen_def norm3_def)
  have c: "distance_cartesian (=) (\<lambda>l. l) (hydrogen (0, 0, 0) 1) (hydrogen (1, 0, 0) 1) = Inr 1"
    by (simp add: distance_cartesian_def coords_cartesian_def real_coords_value
          hydrogen_def eye3_def norm3_def)
  have u: "lattice (hydrogen (0, 0, 0) 1)
             \<noteq> lattice ((hydrogen (1, 0, 0) 1)\<lparr>lattice := ((2, 0, 0), (0, 2, 0), (0, 0, 2))\<rparr>)"
    by (simp add: hydrogen_def eye3_def)
  from distance_undefined_iff_unequal_lattices
         [of "(=)" "hydrogen (0, 0, 0) 1" "hydrogen (1, 0, 0) 1" "\<lambda>l. l"]
       distance_undefined_iff_unequal_lattices
         [of "(=)" "hydrogen (0, 0, 0) 1"
             "(hydrogen (1, 0, 0) 1)\<lparr>lattice := ((2, 0, 0), (0, 2, 0), (0, 0, 2))\<rparr>" "\<lambda>l. l"]
       l f c u
  show ?thesis by metis
qed

text \<open>
  Whatever the state of the receiver, a call of \<^verbatim>\<open>transform\<close> that returns leaves the
  receiver as it was, and the new atom has the class, the lattice, the displacement and
  the occupancy of the receiver, no tag, and the moment of the receiver when that is
  truthy.
\<close>

lemma Atom_transform_frame:
  assumes "Atom_transform d dl x ms = Inr (r, b)"
  shows "r = x \<and> cls b = cls x \<and> lattice b = lattice x \<and> displacement b = displacement x
         \<and> occupancy b = occupancy x \<and> tag b = None
         \<and> coords_fractional b = foldl (\<lambda>v m. transform m v) (coords_fractional x) ms
         \<and> (truthy (magmom x) \<longrightarrow> magmom b = magmom x)"
  using assms
  by (auto simp: Atom_transform_def Atom_init_def Let_def split: sum.splits if_splits)

text \<open>
  Claim C7, as amended. For every atom whose element is a valid, normalized symbol
  (as the constructor stores it), \<^verbatim>\<open>transform\<close> leaves every field of the receiver as it
  was; when it returns, the new atom has the class, the element, the lattice, the
  displacement and the occupancy of the receiver, the transformed coordinates and no
  tag. Its magnetic moment is the moment of the receiver when that is truthy; a moment
  of \<open>0.0\<close> is replaced by the ground-state moment of the element (and the call fails
  when the table has none). So all five fields are carried over when the moment of the
  receiver is truthy or is the ground-state moment of its element, which holds of every
  atom the constructor returns. The claim as stated has the moment carried over for
  every atom; it is not for an atom whose moment was set to \<open>0.0\<close> after construction.
\<close>

theorem transform_carries_fields:
  "(element a \<in> valid_symbols d \<and> title (element a) = element a \<longrightarrow>
      Atom_transform d dl a ms =
        (case (if truthy (magmom a) then Inr (magmom a)
               else magnetic_moment_ground d (element a)) of
           Inl e \<Rightarrow> Inl e
         | Inr m \<Rightarrow>
             Inr (a, a\<lparr>coords_fractional :=
                         foldl (\<lambda>v m. transform m v) (coords_fractional a) ms,
                      magmom := m, tag := None\<rparr>)))
   \<and> (element a \<in> valid_symbols d \<and> title (element a) = element a
      \<and> (truthy (magmom a) \<or> magnetic_moment_ground d (element a) = Inr (magmom a)) \<longrightarrow>
        (\<exists>b. Atom_transform d dl a ms = Inr (a, b)
            \<and> cls b = cls a
            \<and> element b = element a
            \<and> lattice b = lattice a
            \<and> displacement b = displacement a
            \<and> magmom b = magmom a
            \<and> occupancy b = occupancy a
            \<and> tag b = None
            \<and> coords_fractional b = foldl (\<lambda>v m. transform m v) (coords_fractional a) ms))
   \<and> (Atom_init d dl c el co lat disp mm occ tg = Inr a \<longrightarrow>
        Atom_transform d dl a ms =
          Inr (a, a\<lparr>coords_fractional :=
                      foldl (\<lambda>v m. transform m v) (coords_fractional a) ms,
                   tag := None\<rparr>))"
proof (intro conjI impI)
  assume "element a \<in> valid_symbols d \<and> title (element a) = element a"
  then show "Atom_transform d dl a ms =
        (case (if truthy (magmom a) then Inr (magmom a)
               else magnetic_moment_ground d (element a)) of
           Inl e \<Rightarrow> Inl e
         | Inr m \<Rightarrow>
             Inr (a, a\<lparr>coords_fractional :=
                         foldl (\<lambda>v m. transform m v) (coords_fractional a) ms,
                      magmom := m, tag := None\<rparr>))"
    by (intro Atom_transform_value) simp_all
next
  assume h: "element a \<in> valid_symbols d \<and> title (element a) = element a
      \<and> (truthy (magmom a) \<or> magnetic_moment_ground d (element a) = Inr (magmom a))"
  then have "Atom_transform d dl a ms =
          Inr (a, a\<lparr>coords_fractional :=
                      foldl (\<lambda>v m. transform m v) (coords_fractional a) ms,
                   tag := None\<rparr>)"
    by (intro Atom_transform_carried) simp_all
  then show "\<exists>b. Atom_transform d dl a ms = Inr (a, b)
            \<and> cls b = cls a
            \<and> element b = element a
            \<and> lattice b = lattice a
            \<and> displacement b = displacement a
            \<and> magmom b = magmom a
            \<and> occupancy b = occupancy a
            \<and> tag b = None
            \<and> coords_fractional b = foldl (\<lambda>v m. transform m v) (coords_fractional a) ms"
    by simp
next
  assume "Atom_init d dl c el co lat disp mm occ tg = Inr a"
  from Atom_init_Inr [OF this]
  show "Atom_transform d dl a ms =
          Inr (a, a\<lparr>coords_fractional :=
                      foldl (\<lambda>v m. transform m v) (coords_fractional a) ms,
                   tag := None\<rparr>)"
    by (intro Atom_transform_carried) simp_all
qed

theorem transform_carries_fields_witness:
  "Atom_init sample_data eye3 (Subclass ''Tagged'') (Num 1) (1, 2, 3)
       (Some ((2, 0, 0), (0, 2, 0), (0, 0, 2))) (Some (1 / 10, 0, 0)) (Some (Float 3))
       (1 / 2) (Some 7)
     = Inr \<lparr>element = ''H'', coords_fractional = (1, 2, 3),
            lattice = ((2, 0, 0), (0, 2, 0), (0, 0, 2)), displacement = (1 / 10, 0, 0),
            magmom = Float 3, occupancy = 1 / 2, tag = Some 7, cls = Subclass ''Tagged''\<rparr>
   \<and> Atom_transform sample_data eye3
       \<lparr>element = ''H'', coords_fractional = (1, 2, 3),
        lattice = ((2, 0, 0), (0, 2, 0), (0, 0, 2)), displacement = (1 / 10, 0, 0),
        magmom = Float 3, occupancy = 1 / 2, tag = Some 7, cls = Subclass ''Tagged''\<rparr>
       [Linear ((0, 1, 0), (1, 0, 0), (0, 0, 1)),
        Homogeneous ((1, 0, 0, 1 / 2), (0, 1, 0, 0), (0, 0, 1, 0), (0, 0, 0, 1))]
     = Inr (\<lparr>element = ''H'', coords_fractional = (1, 2, 3),
             lattice = ((2, 0, 0), (0, 2, 0), (0, 0, 2)), displacement = (1 / 10, 0, 0),
             magmom = Float 3, occupancy = 1 / 2, tag = Some 7, cls = Subclass ''Tagged''\<rparr>,
            \<lparr>element = ''H'', coords_fractional = (5 / 2, 1, 3),
             lattice = ((2, 0, 0), (0, 2, 0), (0, 0, 2)), displacement = (1 / 10, 0, 0),
             magmom = Float 3, occupancy = 1 / 2, tag = None, cls = Subclass ''Tagged''\<rparr>)
   \<and> element (hydrogen (0, 0, 0) 0) \<in> valid_symbols sample_data
   \<and> title (element (hydrogen (0, 0, 0) 0)) = element (hydrogen (0, 0, 0) 0)
   \<and> \<not> truthy (magmom (hydrogen (0, 0, 0) 0))
   \<and> Atom_transform sample_data eye3 (hydrogen (0, 0, 0) 0)
         [Homogeneous ((1, 0, 0, 1 / 2), (0, 1, 0, 0), (0, 0, 1, 0), (0, 0, 0, 1))]
       = Inr (hydrogen (0, 0, 0) 0, hydrogen (1 / 2, 0, 0) 1)
   \<and> truthy (magmom (hydrogen (0, 0, 0) 2))
   \<and> Atom_transform sample_data eye3 (hydrogen (0, 0, 0) 2)
         [Homogeneous ((1, 0, 0, 1 / 2), (0, 1, 0, 0), (0, 0, 1, 0), (0, 0, 0, 1))]
       = Inr (hydrogen (0, 0, 0) 2, hydrogen (1 / 2, 0, 0) 2)"
proof -
  have n: "NUM_TO_ELEM sample_data 1 = Some ''H''"
    by (simp add: sample_data_def sample_symbols_def)
  have i: "Atom_init sample_data eye3 (Subclass ''Tagged'') (Num 1) (1, 2, 3)
       (Some ((2, 0, 0), (0, 2, 0), (0, 0, 2))) (Some (1 / 10, 0, 0)) (Some (Float 3))
       (1 / 2) (Some 7)
     = Inr \<lparr>element = ''H'', coords_fractional = (1, 2, 3),
            lattice = ((2, 0, 0), (0, 2, 0), (0, 0, 2)), displacement = (1 / 10, 0, 0),
            magmom = Float 3, occupancy = 1 / 2, tag = Some 7, cls = Subclass ''Tagged''\<rparr>"
    by (simp add: Atom_init_def Element_init_def Let_def title_H H_valid n truthy_def)
  have built: "Atom_transform sample_data eye3
       \<lparr>element = ''H'', coords_fractional = (1, 2, 3),
        lattice = ((2, 0, 0), (0, 2, 0), (0, 0, 2)), displacement = (1 / 10, 0, 0),
        magmom = Float 3, occupancy = 1 / 2, tag = Some 7, cls = Subclass ''Tagged''\<rparr>
       [Linear ((0, 1, 0), (1, 0, 0), (0, 0, 1)),
        Homogeneous ((1, 0, 0, 1 / 2), (0, 1, 0, 0), (0, 0, 1, 0), (0, 0, 0, 1))]
     = Inr (\<lparr>element = ''H'', coords_fractional = (1, 2, 3),
             lattice = ((2, 0, 0), (0, 2, 0), (0, 0, 2)), displacement = (1 / 10, 0, 0),
             magmom = Float 3, occupancy = 1 / 2, tag = Some 7, cls = Subclass ''Tagged''\<rparr>,
            \<lparr>element = ''H'', coords_fractional = (5 / 2, 1, 3),
             lattice = ((2, 0, 0), (0, 2, 0), (0, 0, 2)), displacement = (1 / 10, 0, 0),
             magmom = Float 3, occupancy = 1 / 2, tag = None, cls = Subclass ''Tagged''\<rparr>)"
    using transform_carries_fields
            [of _ sample_data eye3
                "[Linear ((0, 1, 0), (1, 0, 0), (0, 0, 1)),
                  Homogeneous ((1, 0, 0, 1 / 2), (0, 1, 0, 0), (0, 0, 1, 0), (0, 0, 0, 1))]",
             THEN conjunct2, THEN conjunct2, rule_format, OF i]
    by simp
  have e: "element (hydrogen co m) = ''H''" for co m
    by (simp add: hydrogen_def)
  have v: "element (hydrogen (0, 0, 0) m) \<in> valid_symbols sample_data" for m
    by (simp only: e H_valid)
  have t: "title (element (hydrogen (0, 0, 0) m)) = element (hydrogen (0, 0, 0) m)" for m
    by (simp only: e title_H)
  have z: "\<not> truthy (magmom (hydrogen (0, 0, 0) 0))"
    by (simp add: hydrogen_def truthy_def)
  have g: "magnetic_moment_ground sample_data (element (hydrogen (0, 0, 0) 0)) = Inr (Float 1)"
    by (simp only: e H_ground)
  have zero: "Atom_transform sample_data eye3 (hydrogen (0, 0, 0) 0)
         [Homogeneous ((1, 0, 0, 1 / 2), (0, 1, 0, 0), (0, 0, 1, 0), (0, 0, 0, 1))]
       = Inr (hydrogen (0, 0, 0) 0, hydrogen (1 / 2, 0, 0) 1)"
    using transform_carries_fields
            [of "hydrogen (0, 0, 0) 0" sample_data eye3
                "[Homogeneous ((1, 0, 0, 1 / 2), (0, 1, 0, 0), (0, 0, 1, 0), (0, 0, 0, 1))]",
             THEN conjunct1, rule_format, OF conjI [OF v t]]
    by (simp add: z g) (simp add: hydrogen_def)
  have p: "truthy (magmom (hydrogen (0, 0, 0) 2))"
    by (simp add: hydrogen_def truthy_def)
  from transform_carries_fields
         [of "hydrogen (0, 0, 0) 2" sample_data eye3
             "[Homogeneous ((1, 0, 0, 1 / 2), (0, 1, 0, 0), (0, 0, 1, 0), (0, 0, 0, 1))]",
          THEN conjunct2, THEN conjunct1, rule_format, OF conjI [OF v conjI [OF t disjI1 [OF p]]]]
  obtain b where b: "Atom_transform sample_data eye3 (hydrogen (0, 0, 0) 2)
         [Homogeneous ((1, 0, 0, 1 / 2), (0, 1, 0, 0), (0, 0, 1, 0), (0, 0, 0, 1))]
       = Inr (hydrogen (0, 0, 0) 2, b)"
    and f: "cls b = cls (hydrogen (0, 0, 0) 2)" "element b = element (hydrogen (0, 0, 0) 2)"
      "lattice b = lattice (hydrogen (0, 0, 0) 2)"
      "displacement b = displacement (hydrogen (0, 0, 0) 2)"
      "magmom b = magmom (hydrogen (0, 0, 0) 2)"
      "occupancy b = occupancy (hydrogen (0, 0, 0) 2)" "tag b = None"
      "coords_fractional b = foldl (\<lambda>v m. transform m v)
         (coords_fractional (hydrogen (0, 0, 0) 2))
         [Homogeneous ((1, 0, 0, 1 / 2), (0, 1, 0, 0), (0, 0, 1, 0), (0, 0, 0, 1))]"
    by blast
  have "b = hydrogen (1 / 2, 0, 0) 2"
    using f by (cases b) (simp add: hydrogen_def)
  with b have two: "Atom_transform sample_data eye3 (hydrogen (0, 0, 0) 2)
         [Homogeneous ((1, 0, 0, 1 / 2), (0, 1, 0, 0), (0, 0, 1, 0), (0, 0, 0, 1))]
       = Inr (hydrogen (0, 0, 0) 2, hydrogen (1 / 2, 0, 0) 2)"
    by simp
  from i built v [of 0] t [of 0] z zero p two show ?thesis
    by blast
qed

theorem transform_zero_moment_counterexample:
  "Atom_transform sample_data eye3 (hydrogen (0, 0, 0) 0) []
     = Inr (hydrogen (0, 0, 0) 0, hydrogen (0, 0, 0) 1)
   \<and> magmom (hydrogen (0, 0, 0) 0) = Float 0
   \<and> magmom (hydrogen (0, 0, 0) 1) = Float 1
   \<and> magmom (hydrogen (0, 0, 0) 1) \<noteq> magmom (hydrogen (0, 0, 0) 0)"
  using hydrogen_zero_transform [of "(0, 0, 0)"] by (simp add: hydrogen_def)




text \<open>
  Claim C10. An atom built with the magnetic moment \<open>0.0\<close> is built as if no moment
  had been given: it stores the ground-state magnetic moment of its element. The same
  happens when \<^verbatim>\<open>transform\<close> builds the new atom from a receiver whose moment is
  \<open>0.0\<close>.
\<close>

theorem zero_magmom_is_unspecified:
  "Atom_init d dl c el co lat disp (Some (Float 0)) occ tg
     = Atom_init d dl c el co lat disp None occ tg
   \<and> (\<forall>a. Atom_init d dl c el co lat disp (Some (Float 0)) occ tg = Inr a \<longrightarrow>
          magnetic_moment_ground d (element a) = Inr (magmom a))
   \<and> (\<forall>r b. magmom x = Float 0 \<and> Atom_transform d dl x ms = Inr (r, b) \<longrightarrow>
          magnetic_moment_ground d (element b) = Inr (magmom b))"
proof (intro conjI allI impI)
  show "Atom_init d dl c el co lat disp (Some (Float 0)) occ tg
          = Atom_init d dl c el co lat disp None occ tg"
    by (simp add: Atom_init_def truthy_def split: sum.splits)
next
  fix a
  assume "Atom_init d dl c el co lat disp (Some (Float 0)) occ tg = Inr a"
  then show "magnetic_moment_ground d (element a) = Inr (magmom a)"
    by (auto simp: Atom_init_def truthy_def split: sum.splits)
next
  fix r b
  assume "magmom x = Float 0 \<and> Atom_transform d dl x ms = Inr (r, b)"
  then show "magnetic_moment_ground d (element b) = Inr (magmom b)"
    by (auto simp: Atom_transform_def Atom_init_def Let_def truthy_def split: sum.splits)
qed

theorem zero_magmom_is_unspecified_witness:
  "Atom_init sample_data eye3 Atom_class (Sym ''H'') (0, 0, 0) None None (Some (Float 0)) 1 None
     = Inr (hydrogen (0, 0, 0) 1)
   \<and> magnetic_moment_ground sample_data (element (hydrogen (0, 0, 0) 1))
       = Inr (magmom (hydrogen (0, 0, 0) 1))
   \<and> magmom (hydrogen (0, 0, 0) 1) = Float 1
   \<and> magmom (hydrogen (0, 0, 0) 0) = Float 0
   \<and> Atom_transform sample_data eye3 (hydrogen (0, 0, 0) 0) []
       = Inr (hydrogen (0, 0, 0) 0, hydrogen (0, 0, 0) 1)"
proof -
  note inst = zero_magmom_is_unspecified
                [of sample_data eye3 Atom_class "Sym ''H''" "(0, 0, 0)" None None 1 None
                    "hydrogen (0, 0, 0) 0" "[]"]
  have i: "Atom_init sample_data eye3 Atom_class (Sym ''H'') (0, 0, 0) None None
             (Some (Float 0)) 1 None = Inr (hydrogen (0, 0, 0) 1)"
    using inst [THEN conjunct1] hydrogen_init [of "(0, 0, 0)"] by simp
  have m: "magmom (hydrogen (0, 0, 0) 0) = Float 0"
    by (simp add: hydrogen_def)
  have tr: "Atom_transform sample_data eye3 (hydrogen (0, 0, 0) 0) []
       = Inr (hydrogen (0, 0, 0) 0, hydrogen (0, 0, 0) 1)"
    by (rule hydrogen_zero_transform)
  have "magnetic_moment_ground sample_data (element (hydrogen (0, 0, 0) 1))
          = Inr (magmom (hydrogen (0, 0, 0) 1))"
    using inst [THEN conjunct2, THEN conjunct2] m tr by blast
  moreover have "magnetic_moment_ground sample_data (element (hydrogen (0, 0, 0) 1))
          = Inr (magmom (hydrogen (0, 0, 0) 1))"
    using inst [THEN conjunct2, THEN conjunct1] i by blast
  moreover have "magmom (hydrogen (0, 0, 0) 1) = Float 1"
    by (simp add: hydrogen_def)
  ultimately show ?thesis using i m tr by blast
qed

end
